theory Spec2Isabelle
  imports Complex_Main
begin

section \<open>NarrativeScope: the signal aggregator and the two topic clusterers\<close>

text \<open>
  JavaScript numbers are modelled as \<^typ>\<open>real\<close>: the finite values, with exact
  arithmetic. \<open>Math.round x\<close> is \<open>\<lfloor>x + 1/2\<rfloor>\<close>, which is \<^const>\<open>round\<close>;
  \<open>Math.min\<close> is \<^const>\<open>min\<close>; \<open>Math.log2\<close> is \<^term>\<open>log 2\<close>. The record fields
  that the snapshot builder only copies have a type parameter \<open>'n\<close>, so that the copy
  can also be read at a number type that has \<open>NaN\<close>. \<open>Array.prototype.sort\<close> is
  stable, as is \<^const>\<open>sort_key\<close>.
\<close>

subsection \<open>Data model\<close>

text \<open>\<open>XSignal\<close> and \<open>TopicCluster\<close> of the X scanner.\<close>

record XSignal =
  s_text :: string
  s_author :: string
  s_authorId :: string
  s_likes :: real
  s_retweets :: real
  s_replies :: real
  s_created :: string
  s_tweetId :: string
  s_query :: string
  s_engagementScore :: real

text \<open>
  \<open>uniqueAuthors\<close> is absent (\<open>None\<close>) in clusters written by the cache converter,
  whose \<open>TopicCluster\<close> has no such field.
\<close>

record 'n TopicCluster =
  x_topic :: string
  x_tweetCount :: 'n
  x_avgEngagement :: 'n
  x_totalEngagement :: 'n
  x_topTweets :: "XSignal list"
  x_keyTerms :: "string list"
  x_uniqueAuthors :: "'n option"

text \<open>\<open>GHRepo\<close> and \<open>GHTopicCluster\<close> of the GitHub scanner.\<close>

record GHRepo =
  r_name :: string
  r_fullName :: string
  r_description :: string
  r_stars :: real
  r_forks :: real
  r_created :: string
  r_updated :: string
  r_language :: string
  r_url :: string
  r_query :: string

record 'n GHTopicCluster =
  g_topic :: string
  g_repoCount :: 'n
  g_totalStars :: 'n
  g_avgStars :: 'n
  g_topRepos :: "GHRepo list"
  g_keyTerms :: "string list"

text \<open>The two halves of \<open>DetectedNarrative.signals\<close>.\<close>

record TweetPreview =
  tp_text :: string
  tp_author :: string
  tp_likes :: real
  tp_url :: string

record RepoPreview =
  rp_name :: string
  rp_description :: string
  rp_stars :: real
  rp_url :: string

record 'n social =
  tweetCount :: 'n
  avgEngagement :: 'n
  totalEngagement :: 'n
  uniqueAuthors :: 'n
  topTweets :: "TweetPreview list"
  keyTerms :: "string list"

record 'n developer =
  repoCount :: 'n
  totalStars :: 'n
  avgStars :: 'n
  topRepos :: "RepoPreview list"
  devKeyTerms :: "string list"

datatype stage = PreNarrative | Emergence | Acceleration | Peak

subsection \<open>\<open>computeSignalScore\<close>\<close>












subsection \<open>\<open>determineStage\<close>\<close>

definition hasStrongSocial :: "real social \<Rightarrow> bool" where
  "hasStrongSocial s \<longleftrightarrow> tweetCount s \<ge> 5 \<and> avgEngagement s \<ge> 100"

definition hasStrongDev :: "real developer \<Rightarrow> bool" where
  "hasStrongDev d \<longleftrightarrow> repoCount d \<ge> 5 \<and> totalStars d \<ge> 20"

definition hasAnySocial :: "real social \<Rightarrow> bool" where
  "hasAnySocial s \<longleftrightarrow> tweetCount s > 0"

definition hasAnyDev :: "real developer \<Rightarrow> bool" where
  "hasAnyDev d \<longleftrightarrow> repoCount d > 0"

definition determineStage :: "real social \<Rightarrow> real developer \<Rightarrow> stage" where
  "determineStage s d =
     (if hasStrongSocial s \<and> hasStrongDev d \<and> avgEngagement s \<ge> 500 \<and> uniqueAuthors s \<ge> 8
      then Peak
      else if hasStrongSocial s \<and> hasStrongDev d \<and> avgEngagement s \<ge> 200
      then Acceleration
      else if hasStrongSocial s \<or> hasStrongDev d then Emergence
      else if hasAnyDev d \<and> \<not> hasAnySocial s then PreNarrative
      else if hasAnySocial s then Emergence
      else PreNarrative)"

text \<open>
  The classification as the specification words it: six rules, the first that matches
  wins; the fourth asks for \<open>tweetCount = 0\<close> where the source negates \<open>tweetCount > 0\<close>.
\<close>

definition stageRules :: "real social \<Rightarrow> real developer \<Rightarrow> (bool \<times> stage) list" where
  "stageRules s d =
     (let strongSocial = (tweetCount s \<ge> 5 \<and> avgEngagement s \<ge> 100);
          strongDev = (repoCount d \<ge> 5 \<and> totalStars d \<ge> 20)
      in [(strongSocial \<and> strongDev \<and> avgEngagement s \<ge> 500 \<and> uniqueAuthors s \<ge> 8, Peak),
          (strongSocial \<and> strongDev \<and> avgEngagement s \<ge> 200, Acceleration),
          (strongSocial \<or> strongDev, Emergence),
          (repoCount d > 0 \<and> tweetCount s = 0, PreNarrative),
          (tweetCount s > 0, Emergence),
          (True, PreNarrative)])"

fun firstMatch :: "(bool \<times> stage) list \<Rightarrow> stage option" where
  "firstMatch [] = None"
| "firstMatch ((b, st) # rs) = (if b then Some st else firstMatch rs)"

subsection \<open>\<open>computeConfidence\<close>\<close>

text \<open>
  The variable \<open>confidence\<close> after the ten conditional increments, then the value
  returned.
\<close>

definition confidenceSum :: "real social \<Rightarrow> real developer \<Rightarrow> real" where
  "confidenceSum s d =
     0.25
     + (if tweetCount s \<ge> 3 then 0.08 else 0)
     + (if tweetCount s \<ge> 10 then 0.07 else 0)
     + (if avgEngagement s \<ge> 100 then 0.08 else 0)
     + (if avgEngagement s \<ge> 300 then 0.05 else 0)
     + (if uniqueAuthors s \<ge> 3 then 0.08 else 0)
     + (if uniqueAuthors s \<ge> 8 then 0.07 else 0)
     + (if repoCount d \<ge> 3 then 0.08 else 0)
     + (if repoCount d \<ge> 10 then 0.07 else 0)
     + (if totalStars d \<ge> 50 then 0.05 else 0)
     + (if tweetCount s > 0 \<and> repoCount d > 0 then 0.12 else 0)"

definition computeConfidence :: "real social \<Rightarrow> real developer \<Rightarrow> real" where
  "computeConfidence s d = min (of_int (round (confidenceSum s d * 100)) / 100) 0.95"

subsection \<open>\<open>aggregateSignals\<close>\<close>

text \<open>
  A count as a malformed cluster may hold it: a finite value or \<open>NaN\<close>. The type is
  used only to read the snapshot builder at a count that is not a number.
\<close>

datatype jsnum = Num real | NaN

instantiation jsnum :: zero
begin

definition zero_jsnum :: jsnum where
  "zero_jsnum = Num 0"

instance ..

end

text \<open>
  The two snapshot expressions in the loop body. An absent cluster gives the all-zero
  snapshot; a present one is copied field by field, \<open>uniqueAuthors ?? 0\<close> being the only
  default. Previews keep the first three items and the first 200 characters of text.
\<close>

definition tweetPreview :: "XSignal \<Rightarrow> TweetPreview" where
  "tweetPreview t = \<lparr>tp_text = take 200 (s_text t), tp_author = s_author t,
     tp_likes = s_likes t, tp_url = ''https://x.com/i/status/'' @ s_tweetId t\<rparr>"

definition repoPreview :: "GHRepo \<Rightarrow> RepoPreview" where
  "repoPreview r = \<lparr>rp_name = r_fullName r, rp_description = take 200 (r_description r),
     rp_stars = r_stars r, rp_url = r_url r\<rparr>"

fun socialSnapshot :: "('n::zero) TopicCluster option \<Rightarrow> 'n social" where
  "socialSnapshot (Some xCluster) =
     \<lparr>tweetCount = x_tweetCount xCluster,
      avgEngagement = x_avgEngagement xCluster,
      totalEngagement = x_totalEngagement xCluster,
      uniqueAuthors = (case x_uniqueAuthors xCluster of Some u \<Rightarrow> u | None \<Rightarrow> 0),
      topTweets = map tweetPreview (take 3 (x_topTweets xCluster)),
      keyTerms = x_keyTerms xCluster\<rparr>"
| "socialSnapshot None =
     \<lparr>tweetCount = 0, avgEngagement = 0, totalEngagement = 0, uniqueAuthors = 0,
      topTweets = [], keyTerms = []\<rparr>"

fun developerSnapshot :: "('n::zero) GHTopicCluster option \<Rightarrow> 'n developer" where
  "developerSnapshot (Some ghCluster) =
     \<lparr>repoCount = g_repoCount ghCluster,
      totalStars = g_totalStars ghCluster,
      avgStars = g_avgStars ghCluster,
      topRepos = map repoPreview (take 3 (g_topRepos ghCluster)),
      devKeyTerms = g_keyTerms ghCluster\<rparr>"
| "developerSnapshot None =
     \<lparr>repoCount = 0, totalStars = 0, avgStars = 0, topRepos = [], devKeyTerms = []\<rparr>"






subsection \<open>Text handling shared by the scanners\<close>

text \<open>
  Strings are lists of 8-bit characters. \<open>toLowerCase\<close> maps \<open>A\<close>..\<open>Z\<close> to
  \<open>a\<close>..\<open>z\<close>; every other character that it could change is replaced by a blank in
  the next step of the tokeniser. \<open>\s\<close> is tab, line feed, vertical tab, form feed,
  carriage return, space and the no-break space.
\<close>

definition toLowerChar :: "char \<Rightarrow> char" where
  "toLowerChar c =
     (case map_of (zip ''ABCDEFGHIJKLMNOPQRSTUVWXYZ'' ''abcdefghijklmnopqrstuvwxyz'') c of
        Some l \<Rightarrow> l | None \<Rightarrow> c)"

definition toLowerCase :: "string \<Rightarrow> string" where
  "toLowerCase s = map toLowerChar s"

definition isSpace :: "char \<Rightarrow> bool" where
  "isSpace c \<longleftrightarrow> c \<in> set [CHR 0x09, CHR 0x0A, CHR 0x0B, CHR 0x0C, CHR 0x0D, CHR 0x20, CHR 0xA0]"

definition isLowerAlnum :: "char \<Rightarrow> bool" where
  "isLowerAlnum c \<longleftrightarrow> c \<in> set ''abcdefghijklmnopqrstuvwxyz0123456789''"

definition isWordChar :: "char \<Rightarrow> bool" where
  "isWordChar c \<longleftrightarrow> isLowerAlnum (toLowerChar c) \<or> c = CHR ''_''"

definition isLineTerminator :: "char \<Rightarrow> bool" where
  "isLineTerminator c \<longleftrightarrow> c = CHR 0x0A \<or> c = CHR 0x0D"

text \<open>
  \<open>.split(re)\<close> for a separator class repeated with \<open>+\<close>: the pieces between maximal
  runs of separators, with an empty piece before a leading and after a trailing run.
\<close>

function splitRuns :: "(char \<Rightarrow> bool) \<Rightarrow> string \<Rightarrow> string \<Rightarrow> string list" where
  "splitRuns sep cur [] = [rev cur]"
| "splitRuns sep cur (c # cs) =
     (if sep c then rev cur # splitRuns sep [] (dropWhile sep cs)
      else splitRuns sep (c # cur) cs)"
  by pat_completeness auto
termination
  by (relation "measure (\<lambda>(sep, cur, s). length s)")
     (auto simp: length_dropWhile_le less_Suc_eq_le)

definition split :: "(char \<Rightarrow> bool) \<Rightarrow> string \<Rightarrow> string list" where
  "split sep s = splitRuns sep [] s"

text \<open>
  \<open>.replace(/https?:\/\/\S+/g, "")\<close>: a match is \<open>http\<close>, an optional \<open>s\<close>, \<open>://\<close>
  and the longest run of at least one non-space character. The prefix has no space in
  it, so a match is the whole run of non-space characters from where it starts: the
  scan drops characters from the start of a match up to the next space.
\<close>

fun stripPrefix :: "string \<Rightarrow> string \<Rightarrow> string option" where
  "stripPrefix [] s = Some s"
| "stripPrefix (p # ps) [] = None"
| "stripPrefix (p # ps) (c # cs) = (if p = c then stripPrefix ps cs else None)"

definition urlAfter :: "string \<Rightarrow> string \<Rightarrow> bool" where
  "urlAfter scheme s =
     (case stripPrefix scheme s of Some (c # cs) \<Rightarrow> \<not> isSpace c | _ \<Rightarrow> False)"

definition startsUrl :: "string \<Rightarrow> bool" where
  "startsUrl s \<longleftrightarrow> urlAfter ''https://'' s \<or> urlAfter ''http://'' s"

fun stripUrlsFrom :: "bool \<Rightarrow> string \<Rightarrow> string" where
  "stripUrlsFrom inUrl [] = []"
| "stripUrlsFrom inUrl (c # cs) =
     (if inUrl then (if isSpace c then c # stripUrlsFrom False cs else stripUrlsFrom True cs)
      else if startsUrl (c # cs) then stripUrlsFrom True cs
      else c # stripUrlsFrom False cs)"

definition stripUrls :: "string \<Rightarrow> string" where
  "stripUrls s = stripUrlsFrom False s"

subsection \<open>\<open>extractKeyTerms\<close> of the two scanners\<close>

definition tweetStopWords :: "string list" where
  "tweetStopWords =
    [''the'', ''a'', ''an'', ''is'', ''are'', ''was'', ''were'', ''be'', ''been'', ''being'',
     ''have'', ''has'', ''had'', ''do'', ''does'', ''did'', ''will'', ''would'', ''could'',
     ''should'', ''may'', ''might'', ''can'', ''shall'', ''to'', ''of'', ''in'', ''for'',
     ''on'', ''with'', ''at'', ''by'', ''from'', ''as'', ''into'', ''through'', ''during'',
     ''before'', ''after'', ''above'', ''below'', ''and'', ''but'', ''or'', ''nor'', ''not'',
     ''so'', ''yet'', ''both'', ''either'', ''neither'', ''each'', ''every'', ''all'',
     ''this'', ''that'', ''these'', ''those'', ''it'', ''its'', ''they'', ''them'', ''their'',
     ''we'', ''us'', ''our'', ''you'', ''your'', ''he'', ''him'', ''his'', ''she'', ''her'',
     ''i'', ''me'', ''my'', ''what'', ''which'', ''who'', ''whom'', ''how'', ''when'', ''where'',
     ''why'', ''if'', ''than'', ''just'', ''more'', ''most'', ''very'', ''too'', ''also'',
     ''about'', ''up'', ''out'', ''no'', ''https'', ''co'', ''rt'', ''amp'']"

definition repoStopWords :: "string list" where
  "repoStopWords =
    [''the'', ''a'', ''an'', ''for'', ''and'', ''with'', ''that'', ''this'', ''from'',
     ''solana'', ''sol'', ''built'', ''using'', ''based'']"

text \<open>The \<open>words\<close> of one item, as the loop body of each extractor computes them.\<close>

definition tweetWords :: "XSignal \<Rightarrow> string list" where
  "tweetWords s =
     filter (\<lambda>w. length w > 3 \<and> w \<notin> set tweetStopWords)
       (split isSpace
          (map (\<lambda>c. if isLowerAlnum c \<or> isSpace c then c else CHR '' '')
             (stripUrls (toLowerCase (s_text s)))))"

definition repoWords :: "GHRepo \<Rightarrow> string list" where
  "repoWords r =
     filter (\<lambda>w. length w > 3 \<and> w \<notin> set repoStopWords)
       (split (\<lambda>c. isSpace c \<or> c = CHR ''-'')
          (map (\<lambda>c. if isLowerAlnum c \<or> isSpace c \<or> c = CHR ''-'' then c else CHR '' '')
             (toLowerCase (r_name r @ '' '' @ r_description r))))"

text \<open>
  \<open>wordFreq\<close> is a \<open>Map\<close>, which iterates in insertion order: an association list in
  which a known word is counted in place and a new word is added at the end.
\<close>

fun bumpFreq :: "string \<Rightarrow> (string \<times> nat) list \<Rightarrow> (string \<times> nat) list" where
  "bumpFreq w [] = [(w, 1)]"
| "bumpFreq w ((k, n) # m) = (if k = w then (k, n + 1) # m else (k, n) # bumpFreq w m)"

definition countWords :: "string list list \<Rightarrow> (string \<times> nat) list" where
  "countWords wordLists = fold (\<lambda>ws m. fold bumpFreq ws m) wordLists []"

text \<open>
  The return expression, the same in both extractors: entries counted at least twice,
  stable sort by descending count, the first ten, the words only.
\<close>

definition rankTerms :: "(string \<times> nat) list \<Rightarrow> string list" where
  "rankTerms wordFreq =
     map fst (take 10 (sort_key (\<lambda>e. - int (snd e)) (filter (\<lambda>e. snd e \<ge> 2) wordFreq)))"

definition extractTweetKeyTerms :: "XSignal list \<Rightarrow> string list" where
  "extractTweetKeyTerms signals = rankTerms (countWords (map tweetWords signals))"

definition extractRepoKeyTerms :: "GHRepo list \<Rightarrow> string list" where
  "extractRepoKeyTerms repos = rankTerms (countWords (map repoWords repos))"

text \<open>
  What the claims about key terms speak of: the frequency of a word across the items,
  and the position at which a word is first seen.
\<close>

definition firstSeen :: "string list \<Rightarrow> string \<Rightarrow> nat" where
  "firstSeen ws w = length (takeWhile (\<lambda>v. v \<noteq> w) ws)"

subsection \<open>Topic patterns\<close>

text \<open>
  The regular expressions of the pattern tables use literals, \<open>.\<close>, \<open>.*\<close>, an optional
  letter \<open>c?\<close>, \<open>\s\<close> and \<open>\b\<close>, all with the flag \<open>i\<close>. A pattern is the list of
  these items; \<open>test\<close> searches the text for a match starting anywhere.
\<close>

datatype rx = Lit char | AnyChar | AnyStar | Opt char | Space | WordB

definition lit :: "string \<Rightarrow> rx list" where
  "lit s = map Lit s"

definition wordAt :: "char option \<Rightarrow> bool" where
  "wordAt c = (case c of None \<Rightarrow> False | Some x \<Rightarrow> isWordChar x)"

fun matchHere :: "rx list \<Rightarrow> char option \<Rightarrow> string \<Rightarrow> bool" where
  "matchHere [] prev s = True"
| "matchHere (Lit c # r) prev [] = False"
| "matchHere (Lit c # r) prev (x # xs) =
     (toLowerChar x = toLowerChar c \<and> matchHere r (Some x) xs)"
| "matchHere (AnyChar # r) prev [] = False"
| "matchHere (AnyChar # r) prev (x # xs) = (\<not> isLineTerminator x \<and> matchHere r (Some x) xs)"
| "matchHere (AnyStar # r) prev [] = matchHere r prev []"
| "matchHere (AnyStar # r) prev (x # xs) =
     (matchHere r prev (x # xs)
      \<or> (\<not> isLineTerminator x \<and> matchHere (AnyStar # r) (Some x) xs))"
| "matchHere (Opt c # r) prev [] = matchHere r prev []"
| "matchHere (Opt c # r) prev (x # xs) =
     ((toLowerChar x = toLowerChar c \<and> matchHere r (Some x) xs) \<or> matchHere r prev (x # xs))"
| "matchHere (Space # r) prev [] = False"
| "matchHere (Space # r) prev (x # xs) = (isSpace x \<and> matchHere r (Some x) xs)"
| "matchHere (WordB # r) prev s =
     (wordAt prev \<noteq> wordAt (case s of [] \<Rightarrow> None | x # xs \<Rightarrow> Some x) \<and> matchHere r prev s)"

fun searchFrom :: "rx list \<Rightarrow> char option \<Rightarrow> string \<Rightarrow> bool" where
  "searchFrom p prev [] = matchHere p prev []"
| "searchFrom p prev (x # xs) = (matchHere p prev (x # xs) \<or> searchFrom p (Some x) xs)"

definition test :: "rx list \<Rightarrow> string \<Rightarrow> bool" where
  "test p s = searchFrom p None s"

text \<open>\<open>patterns.some((p) => p.test(text))\<close>\<close>

definition topicMatches :: "rx list list \<Rightarrow> string \<Rightarrow> bool" where
  "topicMatches patterns txt = list_ex (\<lambda>p. test p txt) patterns"

text \<open>\<open>topicPatterns\<close> of \<open>clusterByTopic\<close> (the X scanner), in the order written.\<close>

definition xTopicPatterns :: "(string \<times> rx list list) list" where
  "xTopicPatterns =
    [(''Privacy & Confidential Computing'',
        [lit ''privac'', lit ''confidential'', lit ''shielde'' @ [Opt CHR ''d''], lit ''hush'',
         lit ''arcium'', lit ''ghost'', lit ''zero'' @ [AnyChar] @ lit ''knowledge'',
         lit ''zk'', lit ''encrypt'']),
     (''AI Agent Infrastructure'',
        [WordB # lit ''agent'', lit ''autonomous'', lit ''ai'' @ [AnyChar] @ lit ''infra'',
         lit ''agent'' @ [AnyChar] @ lit ''to'' @ [AnyChar] @ lit ''agent'', lit ''openclaw'',
         lit ''sendai'', lit ''skill'' @ [Opt CHR ''s'', Space] @ lit ''market'']),
     (''Agent Commerce & Payments'',
        [lit ''x402'', lit ''agent'' @ [AnyChar] @ lit ''pay'',
         lit ''machine'' @ [AnyChar] @ lit ''to'' @ [AnyChar] @ lit ''machine'', lit ''icpay'',
         lit ''usdc'' @ [AnyStar] @ lit ''agent'', lit ''agent'' @ [AnyStar] @ lit ''usdc'',
         lit ''payment'' @ [AnyStar] @ lit ''agent'', lit ''agent'' @ [AnyStar] @ lit ''payment'',
         lit ''gusto'', lit ''payroll'' @ [AnyStar] @ lit ''solana'']),
     (''DePIN & Physical Infrastructure'',
        [lit ''depin'', lit ''helium'', lit ''dabba'', lit ''physical'' @ [AnyChar] @ lit ''infra'',
         lit ''iot'' @ [AnyStar] @ lit ''solana'', lit ''solana'' @ [AnyStar] @ lit ''iot'']),
     (''Dev Tooling & AI-Assisted Building'',
        [lit ''claude'' @ [AnyStar] @ lit ''solana'', lit ''solana'' @ [AnyStar] @ lit ''claude'',
         lit ''anchor'' @ [AnyStar] @ lit ''ai'', lit ''dev'' @ [AnyChar] @ lit ''tool'',
         lit ''code'' @ [AnyChar] @ lit ''gen'', lit ''ai'' @ [AnyStar] @ lit ''build'']),
     (''Restaking & Liquid Staking'',
        [lit ''restaking'', lit ''fragmetric'', lit ''solayer'',
         lit ''liquid'' @ [AnyChar] @ lit ''stak'', lit ''jito'' @ [AnyStar] @ lit ''sol'',
         lit ''lst'']),
     (''Cross-chain & Interoperability'',
        [lit ''cross'' @ [AnyChar] @ lit ''chain'', lit ''bridge'', lit ''interop'',
         lit ''wormhole'', lit ''multichain'', lit ''omnichain''])]"

text \<open>\<open>topicPatterns\<close> of \<open>clusterReposByTopic\<close> (the GitHub scanner).\<close>

definition ghTopicPatterns :: "(string \<times> rx list list) list" where
  "ghTopicPatterns =
    [(''AI Agent Infrastructure'',
        [WordB # lit ''agent'', lit ''autonomous'', lit ''ai'' @ [AnyChar] @ lit ''agent'',
         lit ''llm'', lit ''chatbot'', lit ''assistant'', lit ''skill'' @ [Opt CHR ''s'', Space]]),
     (''Privacy & Confidential Computing'',
        [lit ''privac'', lit ''confidential'', lit ''shielde'' @ [Opt CHR ''d''], lit ''encrypt'',
         lit ''zero'' @ [AnyChar] @ lit ''knowledge'', lit ''zk'', lit ''noir'', lit ''arcium'',
         lit ''hush'']),
     (''Payments & Commerce'',
        [lit ''payment'', lit ''x402'', lit ''commerce'', lit ''usdc'', lit ''pay'',
         lit ''invoic'', lit ''checkout'', lit ''merchant'']),
     (''DePIN'',
        [lit ''depin'', lit ''iot'', lit ''sensor'', lit ''physical'', lit ''hardware'']),
     (''Dev Tooling'',
        [lit ''tool'', lit ''sdk'', lit ''config'', lit ''template'', lit ''scaffold'',
         lit ''boilerplate'', lit ''starter'', lit ''claude'']),
     (''DeFi & Financial'',
        [lit ''defi'', lit ''swap'', lit ''lend'', lit ''borrow'', lit ''yield'', lit ''staking'',
         lit ''restaking'', lit ''liqui'', lit ''amm'', lit ''dex''])]"

subsection \<open>The topic clusterers\<close>

text \<open>
  The object pushed for a topic with its non-empty list \<open>matching\<close>, and one pass of
  the loop over the pattern table in \<open>clusterByTopic\<close>: \<open>None\<close> when no signal
  matches the topic.
\<close>

definition xCluster :: "string \<Rightarrow> XSignal list \<Rightarrow> real TopicCluster" where
  "xCluster topic matching =
     (let totalEng = sum_list (map s_engagementScore matching);
          avgEng = totalEng / real (length matching)
      in \<lparr>x_topic = topic,
          x_tweetCount = real (length matching),
          x_avgEngagement = of_int (round avgEng),
          x_totalEngagement = of_int (round totalEng),
          x_topTweets = take 5 matching,
          x_keyTerms = extractTweetKeyTerms matching,
          x_uniqueAuthors = Some (real (card (set (map s_authorId matching))))\<rparr>)"

definition xClusterFor :: "XSignal list \<Rightarrow> string \<times> rx list list \<Rightarrow> real TopicCluster option" where
  "xClusterFor signals entry =
     (case entry of (topic, patterns) \<Rightarrow>
        let matching = filter (\<lambda>s. topicMatches patterns (s_text s)) signals
        in if length matching = 0 then None else Some (xCluster topic matching))"

definition clusterByTopic :: "XSignal list \<Rightarrow> real TopicCluster list" where
  "clusterByTopic signals =
     sort_key (\<lambda>a. - (x_tweetCount a * 10 + x_avgEngagement a))
       (List.map_filter (xClusterFor signals) xTopicPatterns)"

text \<open>
  \<open>clusterTweets\<close> of the cache converter: the same loop and the same sort, its clusters
  without \<open>uniqueAuthors\<close>.
\<close>

definition clusterTweets :: "XSignal list \<Rightarrow> real TopicCluster list" where
  "clusterTweets signals =
     sort_key (\<lambda>a. - (x_tweetCount a * 10 + x_avgEngagement a))
       (List.map_filter
          (\<lambda>entry. map_option (\<lambda>c. c\<lparr>x_uniqueAuthors := None\<rparr>) (xClusterFor signals entry))
          xTopicPatterns)"

definition ghCluster :: "string \<Rightarrow> GHRepo list \<Rightarrow> real GHTopicCluster" where
  "ghCluster topic matching =
     (let totalStars = sum_list (map r_stars matching);
          avgStars = totalStars / real (length matching)
      in \<lparr>g_topic = topic,
          g_repoCount = real (length matching),
          g_totalStars = totalStars,
          g_avgStars = of_int (round (avgStars * 10)) / 10,
          g_topRepos = take 5 matching,
          g_keyTerms = extractRepoKeyTerms matching\<rparr>)"

definition ghClusterFor :: "GHRepo list \<Rightarrow> string \<times> rx list list \<Rightarrow> real GHTopicCluster option" where
  "ghClusterFor repos entry =
     (case entry of (topic, patterns) \<Rightarrow>
        let matching = filter (\<lambda>r. topicMatches patterns
                           (r_name r @ '' '' @ r_description r @ '' '' @ r_query r)) repos
        in if length matching = 0 then None else Some (ghCluster topic matching))"

definition clusterReposByTopic :: "GHRepo list \<Rightarrow> real GHTopicCluster list" where
  "clusterReposByTopic repos =
     sort_key (\<lambda>a. - (g_repoCount a * 5 + g_totalStars a))
       (List.map_filter (ghClusterFor repos) ghTopicPatterns)"

text \<open>The strength keys: the ones the sorts use, and the social one the claim names.\<close>

definition xStrength :: "real TopicCluster \<Rightarrow> real" where
  "xStrength c = x_tweetCount c * 10 + x_avgEngagement c"

definition xStrengthByTotal :: "real TopicCluster \<Rightarrow> real" where
  "xStrengthByTotal c = x_tweetCount c * 10 + x_totalEngagement c"

definition ghStrength :: "real GHTopicCluster \<Rightarrow> real" where
  "ghStrength c = g_repoCount c * 5 + g_totalStars c"

definition sortedDescBy :: "('a \<Rightarrow> real) \<Rightarrow> 'a list \<Rightarrow> bool" where
  "sortedDescBy f xs = sorted_wrt (\<lambda>a b. f a \<ge> f b) xs"

subsection \<open>Sample inputs\<close>

text \<open>
  The snapshot pair of the worked scenario (ten tweets by five authors, eight
  repositories), the snapshot of an absent cluster on each side, and a few weak or
  strong variations used to run the definitions.
\<close>

definition scenarioSocial :: "real social" where
  "scenarioSocial = \<lparr>tweetCount = 10, avgEngagement = 120, totalEngagement = 1200,
     uniqueAuthors = 5, topTweets = [], keyTerms = []\<rparr>"

definition scenarioDeveloper :: "real developer" where
  "scenarioDeveloper = \<lparr>repoCount = 8, totalStars = 40, avgStars = 5,
     topRepos = [], devKeyTerms = []\<rparr>"

definition noSocial :: "real social" where
  "noSocial = \<lparr>tweetCount = 0, avgEngagement = 0, totalEngagement = 0,
     uniqueAuthors = 0, topTweets = [], keyTerms = []\<rparr>"

definition noDeveloper :: "real developer" where
  "noDeveloper = \<lparr>repoCount = 0, totalStars = 0, avgStars = 0,
     topRepos = [], devKeyTerms = []\<rparr>"

definition weakSocial :: "real social" where
  "weakSocial = \<lparr>tweetCount = 2, avgEngagement = 30, totalEngagement = 60,
     uniqueAuthors = 2, topTweets = [], keyTerms = []\<rparr>"

definition weakDeveloper :: "real developer" where
  "weakDeveloper = \<lparr>repoCount = 2, totalStars = 3, avgStars = 1.5,
     topRepos = [], devKeyTerms = []\<rparr>"

definition peakSocial :: "real social" where
  "peakSocial = \<lparr>tweetCount = 12, avgEngagement = 650, totalEngagement = 7800,
     uniqueAuthors = 9, topTweets = [], keyTerms = []\<rparr>"



definition lonelyDepinCluster :: "real GHTopicCluster" where
  "lonelyDepinCluster = \<lparr>g_topic = ''DePIN'', g_repoCount = 1, g_totalStars = 0,
     g_avgStars = 0, g_topRepos = [], g_keyTerms = []\<rparr>"

definition nanCluster :: "jsnum TopicCluster" where
  "nanCluster = \<lparr>x_topic = ''DePIN & Physical Infrastructure'', x_tweetCount = NaN,
     x_avgEngagement = Num 40, x_totalEngagement = Num 80, x_topTweets = [], x_keyTerms = [],
     x_uniqueAuthors = Some NaN\<rparr>"

definition mkTweet :: "string \<Rightarrow> string \<Rightarrow> real \<Rightarrow> XSignal" where
  "mkTweet author txt likes = \<lparr>s_text = txt, s_author = author, s_authorId = author,
     s_likes = likes, s_retweets = 0, s_replies = 0, s_created = [], s_tweetId = [],
     s_query = [], s_engagementScore = likes\<rparr>"

definition mkRepo :: "string \<Rightarrow> string \<Rightarrow> real \<Rightarrow> GHRepo" where
  "mkRepo nm descr stars = \<lparr>r_name = nm, r_fullName = ''org/'' @ nm, r_description = descr,
     r_stars = stars, r_forks = 0, r_created = [], r_updated = [], r_language = [],
     r_url = [], r_query = []\<rparr>"

definition sampleTweets :: "XSignal list" where
  "sampleTweets =
    [mkTweet ''u1'' ''DePIN wins: Helium on Solana https://t.co/x1 #depin'' 40,
     mkTweet ''u2'' ''helium DePIN rollout on solana, the depin era'' 25]"

definition sampleRepos :: "GHRepo list" where
  "sampleRepos =
    [mkRepo ''depin-sensor-kit'' ''Sensor toolkit for DePIN hardware nodes'' 12,
     mkRepo ''sensor-hub'' ''Hardware sensor hub built on Solana'' 3]"

definition zkAndDepinTweets :: "XSignal list" where
  "zkAndDepinTweets =
    [mkTweet ''u1'' ''zk'' 100, mkTweet ''u2'' ''depin'' 30,
     mkTweet ''u3'' ''depin'' 30, mkTweet ''u4'' ''depin'' 30]"

section \<open>Properties\<close>

subsection \<open>Ranges of the sub-scores\<close>










subsection \<open>Monotonicity of the sub-scores\<close>




subsection \<open>The definitions run on the sample inputs\<close>








subsection \<open>Exactness of the confidence rounding\<close>

lemma confidenceSum_hundredths:
  "confidenceSum s d * 100 = of_int (25
     + (if tweetCount s \<ge> 3 then 8 else 0)
     + (if tweetCount s \<ge> 10 then 7 else 0)
     + (if avgEngagement s \<ge> 100 then 8 else 0)
     + (if avgEngagement s \<ge> 300 then 5 else 0)
     + (if uniqueAuthors s \<ge> 3 then 8 else 0)
     + (if uniqueAuthors s \<ge> 8 then 7 else 0)
     + (if repoCount d \<ge> 3 then 8 else 0)
     + (if repoCount d \<ge> 10 then 7 else 0)
     + (if totalStars d \<ge> 50 then 5 else 0)
     + (if tweetCount s > 0 \<and> repoCount d > 0 then 12 else 0))"
  unfolding confidenceSum_def
  by (simp add: algebra_simps if_distrib[of "\<lambda>x. x * (100::real)"]
      if_distrib[of "of_int :: int \<Rightarrow> real"] cong: if_cong)

lemma confidence_rounding_exact:
  "of_int (round (confidenceSum s d * 100)) / 100 = confidenceSum s d"
proof -
  obtain k :: int where k: "confidenceSum s d * 100 = of_int k"
    using confidenceSum_hundredths by blast
  then have "of_int (round (confidenceSum s d * 100)) / 100 = (of_int k :: real) / 100"
    by simp
  also have "\<dots> = confidenceSum s d" using k by simp
  finally show ?thesis .
qed

lemma confidenceSum_lower: "0.25 \<le> confidenceSum s d"
  unfolding confidenceSum_def
  by (intro add_increasing2) simp_all

section \<open>The composite score: claims C2, C3, C4\<close>








section \<open>Stage classification: claims C5 and C10\<close>

text \<open>
  Claim C5. \<open>determineStage\<close> is the first match of the six rules in the order of the
  specification; in particular a weak social-only signal is \<open>emergence\<close> and a weak
  developer-only signal is \<open>pre-narrative\<close>.
\<close>

theorem determineStage_first_match:
  "firstMatch (stageRules s d) = Some (determineStage s d)
   \<and> (tweetCount s > 0 \<and> \<not> hasStrongSocial s \<and> repoCount d = 0 \<longrightarrow>
         determineStage s d = Emergence)
   \<and> (repoCount d > 0 \<and> \<not> hasStrongDev d \<and> tweetCount s = 0 \<longrightarrow>
         determineStage s d = PreNarrative)"
  by (simp add: stageRules_def determineStage_def hasStrongSocial_def hasStrongDev_def
      hasAnySocial_def hasAnyDev_def Let_def)

theorem determineStage_first_match_witness:
  "tweetCount weakSocial > 0 \<and> \<not> hasStrongSocial weakSocial \<and> repoCount noDeveloper = 0
   \<and> determineStage weakSocial noDeveloper = Emergence
   \<and> repoCount weakDeveloper > 0 \<and> \<not> hasStrongDev weakDeveloper \<and> tweetCount noSocial = 0
   \<and> determineStage noSocial weakDeveloper = PreNarrative
   \<and> firstMatch (stageRules scenarioSocial scenarioDeveloper) = Some Emergence"
proof -
  have a: "tweetCount weakSocial > 0 \<and> \<not> hasStrongSocial weakSocial \<and> repoCount noDeveloper = 0"
    by (simp add: weakSocial_def noDeveloper_def hasStrongSocial_def)
  have b: "repoCount weakDeveloper > 0 \<and> \<not> hasStrongDev weakDeveloper \<and> tweetCount noSocial = 0"
    by (simp add: weakDeveloper_def noSocial_def hasStrongDev_def)
  have c: "determineStage scenarioSocial scenarioDeveloper = Emergence"
    by (simp add: determineStage_def hasStrongSocial_def hasStrongDev_def
        scenarioSocial_def scenarioDeveloper_def)
  from determineStage_first_match[of weakSocial noDeveloper]
    determineStage_first_match[of noSocial weakDeveloper]
    determineStage_first_match[of scenarioSocial scenarioDeveloper] a b c
  show ?thesis by simp
qed

text \<open>
  Claim C10. With \<open>tweetCount = 0\<close> or \<open>repoCount = 0\<close> the stage is neither
  \<open>acceleration\<close> nor \<open>peak\<close>; either of these stages needs \<open>tweetCount \<ge> 5\<close> and
  \<open>repoCount \<ge> 5\<close> together.
\<close>

theorem strong_stages_need_both_sources:
  "(tweetCount s = 0 \<or> repoCount d = 0 \<longrightarrow>
       determineStage s d \<noteq> Acceleration \<and> determineStage s d \<noteq> Peak)
   \<and> (determineStage s d = Acceleration \<or> determineStage s d = Peak \<longrightarrow>
       tweetCount s \<ge> 5 \<and> repoCount d \<ge> 5)"
  by (auto simp: determineStage_def hasStrongSocial_def hasStrongDev_def split: if_splits)

theorem strong_stages_need_both_sources_witness:
  "tweetCount noSocial = 0 \<and> determineStage noSocial scenarioDeveloper = Emergence
   \<and> repoCount noDeveloper = 0 \<and> determineStage peakSocial noDeveloper = Emergence
   \<and> determineStage peakSocial scenarioDeveloper = Peak
   \<and> determineStage (peakSocial\<lparr>uniqueAuthors := 7\<rparr>) scenarioDeveloper = Acceleration
   \<and> tweetCount peakSocial \<ge> 5 \<and> repoCount scenarioDeveloper \<ge> 5"
proof -
  have a: "tweetCount noSocial = 0" "repoCount noDeveloper = 0"
    by (simp_all add: noSocial_def noDeveloper_def)
  have b: "determineStage peakSocial scenarioDeveloper = Peak"
    "determineStage (peakSocial\<lparr>uniqueAuthors := 7\<rparr>) scenarioDeveloper = Acceleration"
    "determineStage noSocial scenarioDeveloper = Emergence"
    "determineStage peakSocial noDeveloper = Emergence"
    by (simp_all add: determineStage_def hasStrongSocial_def hasStrongDev_def hasAnySocial_def
        hasAnyDev_def peakSocial_def scenarioDeveloper_def noSocial_def noDeveloper_def)
  from strong_stages_need_both_sources[of noSocial scenarioDeveloper]
    strong_stages_need_both_sources[of peakSocial noDeveloper]
    strong_stages_need_both_sources[of peakSocial scenarioDeveloper] a b
  show ?thesis by simp
qed

section \<open>Confidence: claim C6\<close>

text \<open>
  Claim C6. \<open>computeConfidence\<close> is the base 0.25 plus the ten independent threshold
  bonuses, capped at 0.95; it lies in \<open>[0.25, 0.95]\<close> and is a whole number of
  hundredths, so the rounding to two decimals changes nothing.
\<close>

theorem computeConfidence_value:
  "computeConfidence s d =
      min (0.25
           + (if tweetCount s \<ge> 3 then 0.08 else 0)
           + (if tweetCount s \<ge> 10 then 0.07 else 0)
           + (if avgEngagement s \<ge> 100 then 0.08 else 0)
           + (if avgEngagement s \<ge> 300 then 0.05 else 0)
           + (if uniqueAuthors s \<ge> 3 then 0.08 else 0)
           + (if uniqueAuthors s \<ge> 8 then 0.07 else 0)
           + (if repoCount d \<ge> 3 then 0.08 else 0)
           + (if repoCount d \<ge> 10 then 0.07 else 0)
           + (if totalStars d \<ge> 50 then 0.05 else 0)
           + (if tweetCount s > 0 \<and> repoCount d > 0 then 0.12 else 0)) 0.95
   \<and> 0.25 \<le> computeConfidence s d \<and> computeConfidence s d \<le> 0.95
   \<and> computeConfidence s d * 100 \<in> \<int>"
proof -
  have eq: "computeConfidence s d = min (confidenceSum s d) 0.95"
    by (simp add: computeConfidence_def confidence_rounding_exact)
  obtain k :: int where k: "confidenceSum s d * 100 = of_int k"
    using confidenceSum_hundredths by blast
  have "computeConfidence s d * 100 = min (confidenceSum s d * 100) 95"
    unfolding eq by (simp add: min_def)
  also have "\<dots> = of_int (min k 95)" unfolding k by (simp add: min_def)
  finally have "computeConfidence s d * 100 \<in> \<int>" by simp
  moreover have "0.25 \<le> computeConfidence s d"
    unfolding eq using confidenceSum_lower[of s d] by simp
  moreover have "computeConfidence s d \<le> 0.95" unfolding eq by simp
  ultimately have "computeConfidence s d = min (confidenceSum s d) 0.95
     \<and> 0.25 \<le> computeConfidence s d \<and> computeConfidence s d \<le> 0.95
     \<and> computeConfidence s d * 100 \<in> \<int>"
    using eq by blast
  then show ?thesis unfolding confidenceSum_def .
qed

theorem computeConfidence_value_witness:
  "computeConfidence scenarioSocial scenarioDeveloper = 0.76
   \<and> computeConfidence peakSocial (scenarioDeveloper\<lparr>repoCount := 10, totalStars := 50\<rparr>) = 0.95
   \<and> computeConfidence noSocial noDeveloper = 0.25"
proof -
  from computeConfidence_value[of scenarioSocial scenarioDeveloper]
    computeConfidence_value[of peakSocial "scenarioDeveloper\<lparr>repoCount := 10, totalStars := 50\<rparr>"]
    computeConfidence_value[of noSocial noDeveloper]
  show ?thesis
    by (simp add: scenarioSocial_def scenarioDeveloper_def peakSocial_def noSocial_def noDeveloper_def)
qed

section \<open>The aggregation loop: claims C1 and C8\<close>














text \<open>
  Claim C8, as stated: the snapshot builder turns a \<open>NaN\<close> or undefined count of an
  input cluster into 0. It does not: a \<open>NaN\<close> \<open>tweetCount\<close> (and a \<open>NaN\<close>
  \<open>uniqueAuthors\<close>) reaches the snapshot, which is what the scoring functions read.
\<close>

theorem snapshot_keeps_NaN:
  "tweetCount (socialSnapshot (Some nanCluster)) = NaN
   \<and> uniqueAuthors (socialSnapshot (Some nanCluster)) = NaN
   \<and> tweetCount (socialSnapshot (Some nanCluster)) \<noteq> 0"
  by (simp add: nanCluster_def zero_jsnum_def)

text \<open>
  Claim C8, amended. The snapshot builder copies every numeric field of a present
  cluster as it is; its only default is 0 for an absent \<open>uniqueAuthors\<close>, and 0 in every
  field for an absent cluster.
\<close>

theorem snapshot_copies_counts:
  "tweetCount (socialSnapshot (Some c)) = x_tweetCount c
   \<and> avgEngagement (socialSnapshot (Some c)) = x_avgEngagement c
   \<and> totalEngagement (socialSnapshot (Some c)) = x_totalEngagement c
   \<and> uniqueAuthors (socialSnapshot (Some c))
       = (case x_uniqueAuthors c of None \<Rightarrow> 0 | Some u \<Rightarrow> u)
   \<and> repoCount (developerSnapshot (Some g)) = g_repoCount g
   \<and> totalStars (developerSnapshot (Some g)) = g_totalStars g
   \<and> avgStars (developerSnapshot (Some g)) = g_avgStars g
   \<and> tweetCount (socialSnapshot None) = 0 \<and> avgEngagement (socialSnapshot None) = 0
   \<and> totalEngagement (socialSnapshot None) = 0 \<and> uniqueAuthors (socialSnapshot None) = 0
   \<and> repoCount (developerSnapshot None) = 0 \<and> totalStars (developerSnapshot None) = 0
   \<and> avgStars (developerSnapshot None) = 0"
  by simp

theorem snapshot_copies_counts_witness:
  "uniqueAuthors (socialSnapshot (Some (nanCluster\<lparr>x_uniqueAuthors := None\<rparr>))) = Num 0
   \<and> avgEngagement (socialSnapshot (Some (nanCluster\<lparr>x_uniqueAuthors := None\<rparr>))) = Num 40
   \<and> tweetCount (socialSnapshot (Some (nanCluster\<lparr>x_uniqueAuthors := None\<rparr>))) = NaN
   \<and> repoCount (developerSnapshot (Some lonelyDepinCluster)) = 1"
  using snapshot_copies_counts[of "nanCluster\<lparr>x_uniqueAuthors := None\<rparr>" lonelyDepinCluster]
  by (simp add: nanCluster_def lonelyDepinCluster_def zero_jsnum_def)

subsection \<open>The frequency map and the stable sort\<close>

lemma countWords_concat:
  "fold (\<lambda>ws m. fold bumpFreq ws m) wls m = fold bumpFreq (concat wls) m"
  by (induction wls arbitrary: m) simp_all

lemma keys_bumpFreq:
  "map fst (bumpFreq w m) = (if w \<in> fst ` set m then map fst m else map fst m @ [w])"
  by (induction w m rule: bumpFreq.induct) (auto simp: image_iff)

lemma map_of_bumpFreq:
  "map_of (bumpFreq w m) = (map_of m)(w \<mapsto> (case map_of m w of None \<Rightarrow> 1 | Some n \<Rightarrow> n + 1))"
  by (induction w m rule: bumpFreq.induct) (auto simp: fun_eq_iff)

lemma firstSeen_less: "w \<in> set ws \<Longrightarrow> firstSeen ws w < length ws"
  unfolding firstSeen_def by (induction ws) auto

lemma firstSeen_snoc_old: "a \<in> set ws \<Longrightarrow> firstSeen (ws @ [w]) a = firstSeen ws a"
  unfolding firstSeen_def by (simp add: takeWhile_append1[of a])

lemma firstSeen_snoc_new: "w \<notin> set ws \<Longrightarrow> firstSeen (ws @ [w]) w = length ws"
  unfolding firstSeen_def by (subst takeWhile_append2) auto

lemma wordFreq_invariant:
  "distinct (map fst (fold bumpFreq ws []))
   \<and> fst ` set (fold bumpFreq ws []) = set ws
   \<and> (\<forall>w. map_of (fold bumpFreq ws []) w
          = (if w \<in> set ws then Some (count_list ws w) else None))
   \<and> sorted_wrt (\<lambda>a b. firstSeen ws a < firstSeen ws b) (map fst (fold bumpFreq ws []))"
proof (induction ws rule: rev_induct)
  case Nil
  show ?case by simp
next
  case (snoc w ws)
  let ?m = "fold bumpFreq ws []"
  from snoc have d: "distinct (map fst ?m)" and k: "fst ` set ?m = set ws"
    and c: "\<And>v. map_of ?m v = (if v \<in> set ws then Some (count_list ws v) else None)"
    and o: "sorted_wrt (\<lambda>a b. firstSeen ws a < firstSeen ws b) (map fst ?m)"
    by simp_all
  have f: "fold bumpFreq (ws @ [w]) [] = bumpFreq w ?m" by simp
  have keys: "map fst (bumpFreq w ?m) = (if w \<in> set ws then map fst ?m else map fst ?m @ [w])"
    by (simp add: keys_bumpFreq k)
  have 1: "distinct (map fst (bumpFreq w ?m))"
    using d k by (auto simp: keys simp flip: set_map)
  have 2: "fst ` set (bumpFreq w ?m) = set (ws @ [w])"
    using k by (auto simp: keys simp flip: set_map)
  have 3: "map_of (bumpFreq w ?m) v
      = (if v \<in> set (ws @ [w]) then Some (count_list (ws @ [w]) v) else None)" for v
    by (simp add: map_of_bumpFreq c)
  have o': "sorted_wrt (\<lambda>a b. firstSeen (ws @ [w]) a < firstSeen (ws @ [w]) b) (map fst ?m)"
  proof (rule sorted_wrt_mono_rel[OF _ o])
    fix a b assume "a \<in> set (map fst ?m)" "b \<in> set (map fst ?m)"
      "firstSeen ws a < firstSeen ws b"
    then show "firstSeen (ws @ [w]) a < firstSeen (ws @ [w]) b"
      using k by (simp add: firstSeen_snoc_old)
  qed
  have 4: "sorted_wrt (\<lambda>a b. firstSeen (ws @ [w]) a < firstSeen (ws @ [w]) b)
      (map fst (bumpFreq w ?m))"
  proof (cases "w \<in> set ws")
    case True
    then show ?thesis using o' by (simp add: keys)
  next
    case False
    have "firstSeen (ws @ [w]) a < firstSeen (ws @ [w]) w" if "a \<in> set (map fst ?m)" for a
    proof -
      from that k have "a \<in> set ws" by simp
      then show ?thesis
        using False by (simp add: firstSeen_snoc_old firstSeen_snoc_new firstSeen_less)
    qed
    then show ?thesis using False o' by (simp add: keys sorted_wrt_append)
  qed
  show ?case unfolding f using 1 2 3 4 by blast
qed

lemma wordFreq_entry:
  assumes "(w, n) \<in> set (fold bumpFreq ws [])"
  shows "w \<in> set ws \<and> n = count_list ws w"
proof -
  note inv = wordFreq_invariant[of ws]
  from inv have d: "distinct (map fst (fold bumpFreq ws []))" by blast
  from assms have m: "map_of (fold bumpFreq ws []) w = Some n"
    by (simp add: map_of_eq_Some_iff[OF d])
  from inv have "fst ` set (fold bumpFreq ws []) = set ws" by blast
  with assms have i: "w \<in> set ws" by force
  from inv have "map_of (fold bumpFreq ws []) w
      = (if w \<in> set ws then Some (count_list ws w) else None)" by blast
  with m i show ?thesis by simp
qed

text \<open>A stable sort turns a list ordered by \<open>Q\<close> into one ordered by key, then by \<open>Q\<close>.\<close>

lemma insort_key_lex:
  assumes "sorted_wrt (\<lambda>a b. f a < f b \<or> (f a = f b \<and> Q a b)) ys" "\<forall>y \<in> set ys. Q x y"
  shows "sorted_wrt (\<lambda>a b. f a < f b \<or> (f a = f b \<and> Q a b)) (insort_key f x ys)"
  using assms
proof (induction ys)
  case Nil
  then show ?case by simp
next
  case (Cons y ys)
  show ?case
  proof (cases "f x \<le> f y")
    case True
    have "f x < f z \<or> (f x = f z \<and> Q x z)" if "z \<in> set (y # ys)" for z
    proof -
      from that Cons.prems(1) have "f y \<le> f z" by auto
      with True have "f x \<le> f z" by simp
      moreover from that Cons.prems(2) have "Q x z" by auto
      ultimately show ?thesis by auto
    qed
    with True Cons.prems(1) show ?thesis by simp
  next
    case False
    with Cons show ?thesis by (auto simp: set_insort_key)
  qed
qed

lemma sort_key_lex:
  "sorted_wrt Q xs \<Longrightarrow> sorted_wrt (\<lambda>a b. f a < f b \<or> (f a = f b \<and> Q a b)) (sort_key f xs)"
  by (induction xs) (auto intro!: insort_key_lex)

lemma rankTerms_countWords:
  fixes wls :: "string list list"
  defines "ws \<equiv> concat wls"
  shows "length (rankTerms (countWords wls)) \<le> 10
   \<and> (\<forall>w \<in> set (rankTerms (countWords wls)). w \<in> set ws \<and> 2 \<le> count_list ws w)
   \<and> sorted_wrt (\<lambda>a b. count_list ws a > count_list ws b
         \<or> (count_list ws a = count_list ws b \<and> firstSeen ws a < firstSeen ws b))
       (rankTerms (countWords wls))"
proof -
  let ?m = "fold bumpFreq ws []"
  let ?f = "\<lambda>e :: string \<times> nat. - int (snd e)"
  let ?Q = "\<lambda>e e' :: string \<times> nat. firstSeen ws (fst e) < firstSeen ws (fst e')"
  let ?t = "take 10 (sort_key ?f (filter (\<lambda>e. snd e \<ge> 2) ?m))"
  have r: "rankTerms (countWords wls) = map fst ?t"
    by (simp add: rankTerms_def countWords_def countWords_concat ws_def)
  have mem: "e \<in> set ?m \<and> 2 \<le> snd e" if "e \<in> set ?t" for e
    using in_set_takeD[OF that] by simp
  have ent: "fst e \<in> set ws \<and> snd e = count_list ws (fst e)" if "e \<in> set ?t" for e
    using wordFreq_entry[of "fst e" "snd e" ws] mem[OF that] by simp
  have "sorted_wrt ?Q ?m"
    using wordFreq_invariant[of ws] by (simp add: sorted_wrt_map)
  then have "sorted_wrt ?Q (filter (\<lambda>e. snd e \<ge> 2) ?m)"
    by (rule sorted_wrt_filter)
  then have "sorted_wrt (\<lambda>a b. ?f a < ?f b \<or> (?f a = ?f b \<and> ?Q a b))
      (sort_key ?f (filter (\<lambda>e. snd e \<ge> 2) ?m))"
    by (rule sort_key_lex)
  then have "sorted_wrt (\<lambda>a b. ?f a < ?f b \<or> (?f a = ?f b \<and> ?Q a b)) ?t"
    by (rule sorted_wrt_take)
  then have "sorted_wrt (\<lambda>e e'. count_list ws (fst e) > count_list ws (fst e')
         \<or> (count_list ws (fst e) = count_list ws (fst e')
            \<and> firstSeen ws (fst e) < firstSeen ws (fst e'))) ?t"
  proof (rule sorted_wrt_mono_rel[rotated])
    fix a b assume "a \<in> set ?t" "b \<in> set ?t"
      and "?f a < ?f b \<or> (?f a = ?f b \<and> ?Q a b)"
    then show "count_list ws (fst a) > count_list ws (fst b)
         \<or> (count_list ws (fst a) = count_list ws (fst b)
            \<and> firstSeen ws (fst a) < firstSeen ws (fst b))"
      using ent[of a] ent[of b] by auto
  qed
  then have s: "sorted_wrt (\<lambda>a b. count_list ws a > count_list ws b
         \<or> (count_list ws a = count_list ws b \<and> firstSeen ws a < firstSeen ws b))
       (map fst ?t)"
    by (simp add: sorted_wrt_map)
  have l: "length (map fst ?t) \<le> 10" by simp
  have w: "\<forall>w \<in> set (map fst ?t). w \<in> set ws \<and> 2 \<le> count_list ws w"
  proof
    fix w assume "w \<in> set (map fst ?t)"
    then obtain e where e: "e \<in> set ?t" "w = fst e" by auto
    with ent[OF e(1)] mem[OF e(1)] show "w \<in> set ws \<and> 2 \<le> count_list ws w" by simp
  qed
  show ?thesis unfolding r using l w s by blast
qed

lemma tweetWords_ok: "w \<in> set (concat (map tweetWords signals)) \<Longrightarrow> length w > 3 \<and> w \<notin> set tweetStopWords"
  by (auto simp: tweetWords_def)

lemma repoWords_ok: "w \<in> set (concat (map repoWords repos)) \<Longrightarrow> length w > 3 \<and> w \<notin> set repoStopWords"
  by (auto simp: repoWords_def)

lemma sampleTweets_keyTerms: "extractTweetKeyTerms sampleTweets = [''depin'', ''helium'', ''solana'']"
  by code_simp

lemma sampleRepos_keyTerms: "extractRepoKeyTerms sampleRepos = [''sensor'', ''depin'', ''hardware'']"
  by code_simp

lemma sampleTweets_words:
  "concat (map tweetWords sampleTweets) =
     [''depin'', ''wins'', ''helium'', ''solana'', ''depin'',
      ''helium'', ''depin'', ''rollout'', ''solana'', ''depin'']"
  by code_simp

section \<open>Key terms: claim C9\<close>

text \<open>
  Claim C9. For every list of items, each extractor returns at most ten words; each
  word is longer than three characters, is no stop word of its stream and occurs at
  least twice among the words of the items; the list is in descending order of
  frequency, words of equal frequency in the order in which they are first seen. The
  extractors are functions of their input, so a second run returns the same list.
\<close>

theorem extractKeyTerms_ranked:
  "length (extractTweetKeyTerms signals) \<le> 10
   \<and> (\<forall>w \<in> set (extractTweetKeyTerms signals).
         length w > 3 \<and> w \<notin> set tweetStopWords
         \<and> 2 \<le> count_list (concat (map tweetWords signals)) w)
   \<and> sorted_wrt (\<lambda>a b.
          count_list (concat (map tweetWords signals)) a
            > count_list (concat (map tweetWords signals)) b
          \<or> (count_list (concat (map tweetWords signals)) a
               = count_list (concat (map tweetWords signals)) b
             \<and> firstSeen (concat (map tweetWords signals)) a
               < firstSeen (concat (map tweetWords signals)) b))
        (extractTweetKeyTerms signals)
   \<and> length (extractRepoKeyTerms repos) \<le> 10
   \<and> (\<forall>w \<in> set (extractRepoKeyTerms repos).
         length w > 3 \<and> w \<notin> set repoStopWords
         \<and> 2 \<le> count_list (concat (map repoWords repos)) w)
   \<and> sorted_wrt (\<lambda>a b.
          count_list (concat (map repoWords repos)) a
            > count_list (concat (map repoWords repos)) b
          \<or> (count_list (concat (map repoWords repos)) a
               = count_list (concat (map repoWords repos)) b
             \<and> firstSeen (concat (map repoWords repos)) a
               < firstSeen (concat (map repoWords repos)) b))
        (extractRepoKeyTerms repos)"
proof -
  note x = rankTerms_countWords[of "map tweetWords signals"]
  note g = rankTerms_countWords[of "map repoWords repos"]
  have xs: "\<forall>w \<in> set (extractTweetKeyTerms signals).
         length w > 3 \<and> w \<notin> set tweetStopWords
         \<and> 2 \<le> count_list (concat (map tweetWords signals)) w"
    using x tweetWords_ok[of _ signals] unfolding extractTweetKeyTerms_def by blast
  have gs: "\<forall>w \<in> set (extractRepoKeyTerms repos).
         length w > 3 \<and> w \<notin> set repoStopWords
         \<and> 2 \<le> count_list (concat (map repoWords repos)) w"
    using g repoWords_ok[of _ repos] unfolding extractRepoKeyTerms_def by blast
  from x g xs gs show ?thesis
    unfolding extractTweetKeyTerms_def extractRepoKeyTerms_def by blast
qed

theorem extractKeyTerms_ranked_witness:
  "extractTweetKeyTerms sampleTweets = [''depin'', ''helium'', ''solana'']
   \<and> extractRepoKeyTerms sampleRepos = [''sensor'', ''depin'', ''hardware'']
   \<and> length ''helium'' > 3 \<and> ''helium'' \<notin> set tweetStopWords
   \<and> count_list (concat (map tweetWords sampleTweets)) ''depin'' = 4
   \<and> count_list (concat (map tweetWords sampleTweets)) ''helium'' = 2
   \<and> count_list (concat (map tweetWords sampleTweets)) ''solana'' = 2
   \<and> firstSeen (concat (map tweetWords sampleTweets)) ''helium''
       < firstSeen (concat (map tweetWords sampleTweets)) ''solana''"
proof -
  have c: "count_list (concat (map tweetWords sampleTweets)) ''depin'' = 4"
    "count_list (concat (map tweetWords sampleTweets)) ''helium'' = 2"
    "count_list (concat (map tweetWords sampleTweets)) ''solana'' = 2"
    "firstSeen (concat (map tweetWords sampleTweets)) ''helium''
       < firstSeen (concat (map tweetWords sampleTweets)) ''solana''"
    unfolding sampleTweets_words by (simp_all add: firstSeen_def)
  from extractKeyTerms_ranked[of sampleTweets sampleRepos] c
  show ?thesis
    unfolding sampleTweets_keyTerms sampleRepos_keyTerms by simp
qed

section \<open>Order of the cluster lists: claim C7\<close>

lemma sorted_desc_sort_key:
  fixes f :: "'a \<Rightarrow> real"
  shows "sortedDescBy f (sort_key (\<lambda>a. - f a) xs)"
proof -
  have "sorted (map (\<lambda>a. - f a) (sort_key (\<lambda>a. - f a) xs))" by (rule sorted_sort_key)
  then show ?thesis by (simp add: sorted_map sortedDescBy_def)
qed

lemma zkDepin_topics:
  "map (\<lambda>e. (fst e, topicMatches (snd e) ''zk'', topicMatches (snd e) ''depin'')) xTopicPatterns =
    [(''Privacy & Confidential Computing'', True, False),
     (''AI Agent Infrastructure'', False, False),
     (''Agent Commerce & Payments'', False, False),
     (''DePIN & Physical Infrastructure'', False, True),
     (''Dev Tooling & AI-Assisted Building'', False, False),
     (''Restaking & Liquid Staking'', False, False),
     (''Cross-chain & Interoperability'', False, False)]"
  by code_simp

lemma zkDepin_filter:
  "filter (\<lambda>s. P (s_text s)) zkAndDepinTweets
     = (if P ''zk'' then [mkTweet ''u1'' ''zk'' 100] else [])
       @ (if P ''depin'' then [mkTweet ''u2'' ''depin'' 30, mkTweet ''u3'' ''depin'' 30,
            mkTweet ''u4'' ''depin'' 30] else [])"
  by (simp add: zkAndDepinTweets_def mkTweet_def)

lemma zk_keyTerms: "extractTweetKeyTerms [mkTweet ''u1'' ''zk'' 100] = []"
  by code_simp

lemma depin_keyTerms:
  "extractTweetKeyTerms [mkTweet ''u2'' ''depin'' 30, mkTweet ''u3'' ''depin'' 30,
      mkTweet ''u4'' ''depin'' 30] = [''depin'']"
  by code_simp

lemma map_filter_via_map: "List.map_filter f xs = List.map_filter (\<lambda>x. x) (map f xs)"
  by (induction xs) (auto split: option.splits)

lemma zkDepin_clusters:
  "clusterByTopic zkAndDepinTweets =
    [\<lparr>x_topic = ''Privacy & Confidential Computing'', x_tweetCount = 1, x_avgEngagement = 100,
      x_totalEngagement = 100, x_topTweets = [mkTweet ''u1'' ''zk'' 100], x_keyTerms = [],
      x_uniqueAuthors = Some 1\<rparr>,
     \<lparr>x_topic = ''DePIN & Physical Infrastructure'', x_tweetCount = 3, x_avgEngagement = 30,
      x_totalEngagement = 90,
      x_topTweets = [mkTweet ''u2'' ''depin'' 30, mkTweet ''u3'' ''depin'' 30,
        mkTweet ''u4'' ''depin'' 30],
      x_keyTerms = [''depin''], x_uniqueAuthors = Some 3\<rparr>]"
proof -
  define H where "H = (\<lambda>(topic, z, d).
      let matching = (if z then [mkTweet ''u1'' ''zk'' 100] else [])
           @ (if d then [mkTweet ''u2'' ''depin'' 30, mkTweet ''u3'' ''depin'' 30,
                mkTweet ''u4'' ''depin'' 30] else [])
      in if length matching = 0 then None else Some (xCluster topic matching))"
  have g: "xClusterFor zkAndDepinTweets e
      = H (fst e, topicMatches (snd e) ''zk'', topicMatches (snd e) ''depin'')" for e
    by (cases e) (simp add: H_def xClusterFor_def zkDepin_filter)
  have "map (xClusterFor zkAndDepinTweets) xTopicPatterns
      = map H (map (\<lambda>e. (fst e, topicMatches (snd e) ''zk'', topicMatches (snd e) ''depin''))
          xTopicPatterns)"
    by (simp add: g)
  also have "\<dots> =
     [Some \<lparr>x_topic = ''Privacy & Confidential Computing'', x_tweetCount = 1, x_avgEngagement = 100,
      x_totalEngagement = 100, x_topTweets = [mkTweet ''u1'' ''zk'' 100], x_keyTerms = [],
      x_uniqueAuthors = Some 1\<rparr>, None, None,
      Some \<lparr>x_topic = ''DePIN & Physical Infrastructure'', x_tweetCount = 3, x_avgEngagement = 30,
      x_totalEngagement = 90,
      x_topTweets = [mkTweet ''u2'' ''depin'' 30, mkTweet ''u3'' ''depin'' 30,
        mkTweet ''u4'' ''depin'' 30],
      x_keyTerms = [''depin''], x_uniqueAuthors = Some 3\<rparr>, None, None, None]"
    unfolding zkDepin_topics
    by (simp add: H_def xCluster_def zk_keyTerms depin_keyTerms round_def)
       (simp add: mkTweet_def)
  finally have m: "map (xClusterFor zkAndDepinTweets) xTopicPatterns = \<dots>" .
  show ?thesis
    unfolding clusterByTopic_def map_filter_via_map[of "xClusterFor zkAndDepinTweets"] m
    by (simp add: map_filter_simps)
qed

text \<open>
  Claim C7, as stated: the social cluster list is in descending order of
  \<open>tweetCount * 10 + totalEngagement\<close>. It is not: one tweet of engagement 100 on one
  topic and three tweets of engagement 30 on another come out in that order, with
  total-based strengths 110 and 120.
\<close>

theorem social_order_not_by_total:
  "map x_topic (clusterByTopic zkAndDepinTweets)
     = [''Privacy & Confidential Computing'', ''DePIN & Physical Infrastructure'']
   \<and> map xStrengthByTotal (clusterByTopic zkAndDepinTweets) = [110, 120]
   \<and> \<not> sortedDescBy xStrengthByTotal (clusterByTopic zkAndDepinTweets)"
  by (simp add: zkDepin_clusters xStrengthByTotal_def sortedDescBy_def)

text \<open>
  Claim C7, amended. The social cluster lists (of \<open>clusterByTopic\<close> and of
  \<open>clusterTweets\<close>) are in descending order of \<open>tweetCount * 10 + avgEngagement\<close>, the
  developer cluster list in descending order of \<open>repoCount * 5 + totalStars\<close>.
\<close>

theorem clusters_sorted_by_strength:
  "sortedDescBy xStrength (clusterByTopic signals)
   \<and> sortedDescBy xStrength (clusterTweets signals)
   \<and> sortedDescBy ghStrength (clusterReposByTopic repos)"
  unfolding clusterByTopic_def clusterTweets_def clusterReposByTopic_def
  using sorted_desc_sort_key[of xStrength] sorted_desc_sort_key[of ghStrength]
  by (simp add: xStrength_def[abs_def] ghStrength_def[abs_def])

theorem clusters_sorted_by_strength_witness:
  "map xStrength (clusterByTopic zkAndDepinTweets) = [110, 60]
   \<and> sortedDescBy xStrength (clusterByTopic zkAndDepinTweets)
   \<and> sortedDescBy ghStrength (clusterReposByTopic sampleRepos)"
  using clusters_sorted_by_strength[of zkAndDepinTweets sampleRepos]
  by (simp add: zkDepin_clusters xStrength_def)

end
